theory Spec2Isabelle
  imports Main "HOL-Library.Word" "HOL-Library.Sublist"
begin

section \<open>JavaScript strings\<close>

text \<open>
  A JavaScript string is a sequence of UTF-16 code units; \<open>length\<close>, \<open>includes\<close>,
  \<open>split\<close> and \<open>trim\<close> all work on code units. The values a user types (name, email,
  password, signature) are modelled as such. Text that is fixed in the source (message
  texts, issue paths, object keys, error codes, routes) is an Isabelle \<open>string\<close>.
\<close>

type_synonym code_unit = "16 word"
type_synonym jsstring = "code_unit list"

text \<open>The code units of an ASCII literal of the source.\<close>

definition js :: "string \<Rightarrow> jsstring" where
  "js s = map of_char s"

text \<open>
  \<open>String.prototype.trim\<close> strips WhiteSpace and LineTerminator code points from both
  ends (ECMAScript 22.1.3.32). All of them are single code units.
\<close>

definition isWhiteSpace :: "code_unit \<Rightarrow> bool" where
  "isWhiteSpace c \<longleftrightarrow>
     c = 0x0009 \<or> c = 0x000A \<or> c = 0x000B \<or> c = 0x000C \<or> c = 0x000D \<or> c = 0x0020 \<or>
     c = 0x00A0 \<or> c = 0x1680 \<or> (0x2000 \<le> c \<and> c \<le> 0x200A) \<or> c = 0x2028 \<or>
     c = 0x2029 \<or> c = 0x202F \<or> c = 0x205F \<or> c = 0x3000 \<or> c = 0xFEFF"

definition String_trim :: "jsstring \<Rightarrow> jsstring" where
  "String_trim s = rev (dropWhile isWhiteSpace (rev (dropWhile isWhiteSpace s)))"

text \<open>\<open>s.includes(t)\<close>: \<open>t\<close> occurs in \<open>s\<close> as a run of consecutive code units.\<close>

fun String_includes :: "jsstring \<Rightarrow> jsstring \<Rightarrow> bool" where
  "String_includes [] t = (t = [])"
| "String_includes (c # cs) t = (prefix t (c # cs) \<or> String_includes cs t)"

text \<open>
  \<open>s.split(sep)\<close> for a separator of one code unit. The result always has a first
  element: \<open>''''.split('@')\<close> is \<open>['''']\<close>.
\<close>

fun String_split :: "jsstring \<Rightarrow> code_unit \<Rightarrow> jsstring list" where
  "String_split [] sep = [[]]"
| "String_split (c # cs) sep =
     (if c = sep then [] # String_split cs sep
      else (case String_split cs sep of
              [] \<Rightarrow> [[c]]
            | p # ps \<Rightarrow> (c # p) # ps))"

text \<open>\<open>parts.join(sep)\<close> on fixed text.\<close>

fun Array_join :: "string list \<Rightarrow> string \<Rightarrow> string" where
  "Array_join [] sep = []"
| "Array_join [p] sep = p"
| "Array_join (p # q # ps) sep = p @ sep @ Array_join (q # ps) sep"

section \<open>The zod schema\<close>

text \<open>
  The value the form holds and the schema parses: \<open>TSignUpFormSchema\<close>
  (\<open>z.infer<typeof ZSignUpFormSchema>\<close>). \<open>signature\<close> is optional: \<open>None\<close> is
  \<open>undefined\<close>.
\<close>

record TSignUpFormSchema =
  name :: jsstring
  email :: jsstring
  password :: jsstring
  signature :: "jsstring option"

text \<open>
  What the schema takes from outside this file:
  \<^item> \<open>emailRegex\<close>: the pattern behind \<open>z.string().email()\<close>, as a predicate;
  \<^item> \<open>ZPasswordSchema\<close>, imported from \<open>@documenso/trpc/server/auth-router/schema\<close>:
    the strength policy, as the messages of the issues it raises on a password (none when
    the password passes). It is a chain of checks on a string: it reports issues and hands
    the password on unchanged.
\<close>

record zod_deps =
  emailRegex :: "jsstring \<Rightarrow> bool"
  ZPasswordSchema :: "jsstring \<Rightarrow> string list"

text \<open>
  An issue, as far as the form reads it. The schema gives its own issues the catalog id
  of a message (\<open>msg`...`.id\<close>); like every message here it is represented by the
  text of the message.
\<close>

record ZodIssue =
  message :: string
  path :: "string list"

text \<open>
  A zod parser returns \<open>INVALID\<close> (parsing aborted), \<open>DIRTY v\<close> (issues were raised,
  parsing went on with value \<open>v\<close>) or \<open>OK v\<close>; the issues collect in the parse context,
  modelled as the second component of the result.
\<close>

datatype 'a ParseReturn = INVALID | DIRTY 'a | OK 'a

datatype ZodStringCheck =
    check_trim
  | check_min nat string
  | check_email string

text \<open>
  \<open>ZodString._parse\<close> on a string input: the checks run in the order they were
  chained; \<open>trim\<close> replaces the data, a failed \<open>min\<close> or \<open>email\<close> adds an issue and
  marks the result dirty without stopping.
\<close>

fun ZodString_checks ::
  "zod_deps \<Rightarrow> string list \<Rightarrow> ZodStringCheck list \<Rightarrow> jsstring \<Rightarrow> jsstring \<times> ZodIssue list"
where
  "ZodString_checks D p [] d = (d, [])"
| "ZodString_checks D p (check_trim # cs) d = ZodString_checks D p cs (String_trim d)"
| "ZodString_checks D p (check_min n m # cs) d =
     (let (d', is) = ZodString_checks D p cs d
      in (d', (if length d < n then [\<lparr>message = m, path = p\<rparr>] else []) @ is))"
| "ZodString_checks D p (check_email m # cs) d =
     (let (d', is) = ZodString_checks D p cs d
      in (d', (if \<not> emailRegex D d then [\<lparr>message = m, path = p\<rparr>] else []) @ is))"

definition ZodString_parse ::
  "zod_deps \<Rightarrow> string list \<Rightarrow> ZodStringCheck list \<Rightarrow> jsstring
     \<Rightarrow> jsstring ParseReturn \<times> ZodIssue list"
where
  "ZodString_parse D p cs d =
     (let (d', is) = ZodString_checks D p cs d
      in (if is = [] then OK d' else DIRTY d', is))"

text \<open>The four fields of \<open>z.object({...})\<close>, lines 38 to 44.\<close>

definition name_schema :: "zod_deps \<Rightarrow> jsstring \<Rightarrow> jsstring ParseReturn \<times> ZodIssue list" where
  "name_schema D =
     ZodString_parse D [''name''] [check_trim, check_min 1 ''Please enter a valid name.'']"

definition email_schema :: "zod_deps \<Rightarrow> jsstring \<Rightarrow> jsstring ParseReturn \<times> ZodIssue list" where
  "email_schema D =
     ZodString_parse D [''email'']
       [check_email ''Invalid email'',
        check_min 1 ''String must contain at least 1 character(s)'']"

definition password_schema ::
  "zod_deps \<Rightarrow> jsstring \<Rightarrow> jsstring ParseReturn \<times> ZodIssue list"
where
  "password_schema D pw =
     (let is = map (\<lambda>m. \<lparr>message = m, path = [''password'']\<rparr>) (ZPasswordSchema D pw)
      in (if is = [] then OK pw else DIRTY pw, is))"

definition signature_schema ::
  "jsstring option \<Rightarrow> jsstring option ParseReturn \<times> ZodIssue list"
where
  "signature_schema s = (OK s, [])"

text \<open>
  \<open>ZodObject._parse\<close> followed by \<open>ParseStatus.mergeObjectSync\<close>: every field is
  parsed, in the order of the shape; one aborted field aborts the object, one dirty field
  makes it dirty; the value is the object of the parsed fields.
\<close>

fun isAborted :: "'a ParseReturn \<Rightarrow> bool" where
  "isAborted INVALID = True"
| "isAborted (DIRTY v) = False"
| "isAborted (OK v) = False"

fun isDirty :: "'a ParseReturn \<Rightarrow> bool" where
  "isDirty INVALID = False"
| "isDirty (DIRTY v) = True"
| "isDirty (OK v) = False"

fun value_of :: "'a ParseReturn \<Rightarrow> 'a" where
  "value_of (DIRTY v) = v"
| "value_of (OK v) = v"

definition ZodObject_parse ::
  "zod_deps \<Rightarrow> TSignUpFormSchema \<Rightarrow> TSignUpFormSchema ParseReturn \<times> ZodIssue list"
where
  "ZodObject_parse D data =
     (let (n, is_n) = name_schema D (name data);
          (e, is_e) = email_schema D (email data);
          (p, is_p) = password_schema D (password data);
          (s, is_s) = signature_schema (signature data);
          is = is_n @ is_e @ is_p @ is_s
      in if isAborted n \<or> isAborted e \<or> isAborted p \<or> isAborted s then (INVALID, is)
         else
           (let v = \<lparr>name = value_of n, email = value_of e,
                     password = value_of p, signature = value_of s\<rparr>
            in (if isDirty n \<or> isDirty e \<or> isDirty p \<or> isDirty s then DIRTY v else OK v,
                is)))"

text \<open>The predicate handed to \<open>.refine\<close>, lines 47 to 50.\<close>

definition refinement :: "TSignUpFormSchema \<Rightarrow> bool" where
  "refinement data =
     (\<not> String_includes (password data) (name data) \<and>
      \<not> String_includes (password data) (hd (String_split (email data) 0x40)))"

definition refinement_issue :: ZodIssue where
  "refinement_issue =
     \<lparr>message = ''Password should not be common or based on personal information'',
      path = [''password'']\<rparr>"

text \<open>
  \<open>ZodEffects._parse\<close> for a refinement: an aborted inner result stays aborted and the
  predicate is not run; otherwise the predicate runs on the inner value, also when that
  value is dirty, and a false result adds the issue.
\<close>

definition ZSignUpFormSchema_parse ::
  "zod_deps \<Rightarrow> TSignUpFormSchema \<Rightarrow> TSignUpFormSchema ParseReturn \<times> ZodIssue list"
where
  "ZSignUpFormSchema_parse D data =
     (case ZodObject_parse D data of
        (INVALID, is) \<Rightarrow> (INVALID, is)
      | (DIRTY v, is) \<Rightarrow> (DIRTY v, is @ (if refinement v then [] else [refinement_issue]))
      | (OK v, is) \<Rightarrow>
          (if refinement v then (OK v, is) else (DIRTY v, is @ [refinement_issue])))"

text \<open>\<open>safeParse\<close>: the parsed data when the status is valid, the issues otherwise.\<close>

datatype SafeParseReturn = success TSignUpFormSchema | failure "ZodIssue list"

definition ZSignUpFormSchema :: "zod_deps \<Rightarrow> TSignUpFormSchema \<Rightarrow> SafeParseReturn" where
  "ZSignUpFormSchema D data =
     (case ZSignUpFormSchema_parse D data of
        (OK v, is) \<Rightarrow> success v
      | (_, is) \<Rightarrow> failure is)"

section \<open>The resolver\<close>

text \<open>
  \<open>zodResolver(ZSignUpFormSchema)\<close> turns the schema's verdict into what react-hook-form
  reads: the parsed data and no errors, or no data and, for every path, the message of the
  first issue raised on it (\<open>parseErrorSchema\<close>).
\<close>

type_synonym FieldErrors = "(string \<times> string) list"

fun parseErrorSchema :: "ZodIssue list \<Rightarrow> FieldErrors" where
  "parseErrorSchema [] = []"
| "parseErrorSchema (i # is) =
     (Array_join (path i) ''.'', message i) #
       filter (\<lambda>(k, m). k \<noteq> Array_join (path i) ''.'') (parseErrorSchema is)"

record ResolverResult =
  res_values :: "TSignUpFormSchema option"
  res_errors :: FieldErrors

definition zodResolver :: "zod_deps \<Rightarrow> TSignUpFormSchema \<Rightarrow> ResolverResult" where
  "zodResolver D vals =
     (case ZSignUpFormSchema D vals of
        success data \<Rightarrow> \<lparr>res_values = Some data, res_errors = []\<rparr>
      | failure is \<Rightarrow> \<lparr>res_values = None, res_errors = parseErrorSchema is\<rparr>)"

section \<open>The collaborators and what is done to them\<close>

text \<open>
  The argument of \<open>authClient.emailPassword.signUp\<close>; \<open>None\<close> in the last field is
  \<open>null\<close>.
\<close>

datatype signUp_request =
  signUp_request (req_name: jsstring) (req_email: jsstring) (req_password: jsstring)
    (req_signature: "jsstring option")

datatype toast_variant = destructive

text \<open>
  The argument of \<open>toast\<close>. The translation \<open>_(...)\<close> of a message is left symbolic: a
  toast is recorded with the source text of the message handed to \<open>_\<close>, and with
  \<open>None\<close> as description when \<open>_\<close> was handed something that is not a message
  (\<open>undefined\<close>, or a member every object inherits). An absent \<open>variant\<close> or
  \<open>duration\<close> is \<open>None\<close>.
\<close>

record toast_props =
  title :: string
  description :: "string option"
  variant :: "toast_variant option"
  duration :: "nat option"

text \<open>The properties of the analytics event; \<open>None\<close> for \<open>src\<close> is \<open>null\<close>.\<close>

datatype capture_properties =
  capture_properties (prop_email: jsstring) (prop_timestamp: string)
    (prop_custom_campaign_params_src: "jsstring option")

text \<open>
  The calls the component makes on its collaborators, in the order it makes them. The
  \<open>console.log\<close> and \<open>console.error\<close> lines only print and are left out.
\<close>

datatype effect =
    emailPassword_signUp signUp_request
  | navigate string
  | toast toast_props
  | analytics_capture string capture_properties
  | google_signIn
  | oidc_signIn

text \<open>
  What the component closes over. \<open>AppErrorCode\<close> and \<open>AppError.parseError\<close> live in
  \<open>@documenso/lib/errors/app-error\<close>: the two enum members the table uses are taken as
  the strings \<open>ALREADY_EXISTS\<close> and \<open>INVALID_REQUEST\<close>, and \<open>parseError\<close> as the code of
  the \<open>AppError\<close> it makes of a thrown value. \<open>searchParams\<close> are the query parameters of
  the page, \<open>now\<close> is the time value \<open>new Date()\<close> reads when the analytics event is
  made (milliseconds since the epoch),
  \<open>hashParams\<close> are the parameters in the fragment of the page's address; the rest are
  the props of the component.
\<close>

record 'e ctx =
  zod :: zod_deps
  ALREADY_EXISTS :: string
  INVALID_REQUEST :: string
  parseError :: "'e \<Rightarrow> string"
  searchParams :: "(jsstring \<times> jsstring) list"
  now :: int
  initialEmail :: "jsstring option"
  hashParams :: "(jsstring \<times> jsstring) list"
  isGoogleSSOEnabled :: bool
  isOIDCSSOEnabled :: bool

section \<open>Date.prototype.toISOString\<close>

text \<open>
  The date of a day number (days since 1970-01-01) in the proleptic Gregorian calendar,
  as year, month and day of the month.
\<close>

definition civil_from_days :: "int \<Rightarrow> int \<times> int \<times> int" where
  "civil_from_days z0 =
     (let z = z0 + 719468;
          era = z div 146097;
          doe = z mod 146097;
          yoe = (doe - doe div 1460 + doe div 36524 - doe div 146096) div 365;
          doy = doe - (365 * yoe + yoe div 4 - yoe div 100);
          mp = (5 * doy + 2) div 153;
          d = doy - (153 * mp + 2) div 5 + 1;
          m = (if mp < 10 then mp + 3 else mp - 9);
          y = yoe + era * 400 + (if m \<le> 2 then 1 else 0)
      in (y, m, d))"

definition digit :: "int \<Rightarrow> char" where
  "digit k = char_of (48 + nat (k mod 10))"

text \<open>The last \<open>n\<close> decimal digits of \<open>k\<close>, zero padded.\<close>

fun pad :: "nat \<Rightarrow> int \<Rightarrow> string" where
  "pad 0 k = []"
| "pad (Suc n) k = pad n (k div 10) @ [digit k]"

text \<open>
  \<open>YYYY-MM-DDTHH:mm:ss.sssZ\<close>, the year with a sign and six digits when it is outside
  0 to 9999.
\<close>

definition toISOString :: "int \<Rightarrow> string" where
  "toISOString t =
     (let (y, m, d) = civil_from_days (t div 86400000);
          ms = t mod 86400000
      in (if 0 \<le> y \<and> y \<le> 9999 then pad 4 y
          else (if y < 0 then ''-'' else ''+'') @ pad 6 \<bar>y\<bar>)
         @ ''-'' @ pad 2 m @ ''-'' @ pad 2 d
         @ ''T'' @ pad 2 (ms div 3600000) @ '':'' @ pad 2 (ms div 60000 mod 60)
         @ '':'' @ pad 2 (ms div 1000 mod 60) @ ''.'' @ pad 3 (ms mod 1000) @ ''Z'')"

section \<open>The component\<close>

text \<open>\<open>searchParams.get(key)\<close>: the first value stored under the key, or \<open>null\<close>.\<close>

fun URLSearchParams_get :: "(jsstring \<times> jsstring) list \<Rightarrow> jsstring \<Rightarrow> jsstring option" where
  "URLSearchParams_get [] k = None"
| "URLSearchParams_get ((k', v) # ps) k = (if k' = k then Some v else URLSearchParams_get ps k)"

definition utmSrc :: "'e ctx \<Rightarrow> jsstring option" where
  "utmSrc C = URLSearchParams_get (searchParams C) (js ''utm_source'')"

text \<open>
  \<open>signupErrorMessages\<close>, lines 57 to 61: an object literal, so a key written twice
  keeps the later message. These are the properties the object has of its own.
\<close>

definition signupErrorMessages :: "'e ctx \<Rightarrow> string \<rightharpoonup> string" where
  "signupErrorMessages C =
     [''SIGNUP_DISABLED'' \<mapsto> ''Signups are disabled.'',
      ALREADY_EXISTS C \<mapsto>
        ''User with this email already exists. Please use a different email address.'',
      INVALID_REQUEST C \<mapsto>
        ''We were unable to create your account. Please review the information you provided and try again.'']"

text \<open>
  Reading a property, \<open>signupErrorMessages[key]\<close>: the object's own message under the
  key; failing that, the member of that name which an object literal inherits from
  \<open>Object.prototype\<close>, a function or an object and never \<open>null\<close> or \<open>undefined\<close>;
  failing that, \<open>undefined\<close> (\<open>None\<close>).
\<close>

definition Object_prototype :: "string list" where
  "Object_prototype =
     [''constructor'', ''__defineGetter__'', ''__defineSetter__'', ''hasOwnProperty'',
      ''__lookupGetter__'', ''__lookupSetter__'', ''isPrototypeOf'',
      ''propertyIsEnumerable'', ''toString'', ''valueOf'', ''__proto__'',
      ''toLocaleString'']"

datatype property = own_message string | inherited_member string

definition signupErrorMessages_get :: "'e ctx \<Rightarrow> string \<Rightarrow> property option" where
  "signupErrorMessages_get C key =
     (case signupErrorMessages C key of
        Some m \<Rightarrow> Some (own_message m)
      | None \<Rightarrow> if key \<in> set Object_prototype then Some (inherited_member key) else None)"

text \<open>What a toast records of \<open>_(v)\<close>: the text when \<open>v\<close> is a message.\<close>

fun translated :: "property option \<Rightarrow> string option" where
  "translated (Some (own_message m)) = Some m"
| "translated (Some (inherited_member k)) = None"
| "translated None = None"

text \<open>
  A handler is an async function: it makes calls and then either returns (\<open>Inr ()\<close>) or
  throws (\<open>Inl err\<close>). \<open>try_catch\<close> runs a body and, when the body throws, the handler
  of the \<open>catch\<close> block.
\<close>

type_synonym 'e run = "effect list \<times> ('e + unit)"

definition try_catch :: "'e run \<Rightarrow> ('e \<Rightarrow> 'e run) \<Rightarrow> 'e run" where
  "try_catch body handler =
     (case body of
        (fx, Inl err) \<Rightarrow> (let (fx', r) = handler err in (fx @ fx', r))
      | (fx, Inr u) \<Rightarrow> (fx, Inr u))"

text \<open>\<open>signature || null\<close>: \<open>undefined\<close> and the empty string are falsy.\<close>

definition or_null :: "jsstring option \<Rightarrow> jsstring option" where
  "or_null s = (case s of None \<Rightarrow> None | Some v \<Rightarrow> if v = [] then None else Some v)"

definition signUp_args :: "TSignUpFormSchema \<Rightarrow> signUp_request" where
  "signUp_args vals =
     signUp_request (name vals) (email vals) (password vals) (or_null (signature vals))"

text \<open>
  \<open>onFormSubmit\<close>, lines 100 to 145. \<open>r\<close> is how the awaited
  \<open>authClient.emailPassword.signUp\<close> settles: \<open>None\<close> when it resolves, \<open>Some err\<close>
  when it throws \<open>err\<close>. \<open>onFormSubmit_settled\<close> is the part that runs after the await.
\<close>

definition onFormSubmit_success :: "'e ctx \<Rightarrow> TSignUpFormSchema \<Rightarrow> effect list" where
  "onFormSubmit_success C vals =
     [navigate ''/unverified-account'',
      toast \<lparr>title = ''Registration Successful'',
             description = Some ''You have successfully registered. Please verify your account by clicking on the link you received in the email.'',
             variant = None,
             duration = Some 5000\<rparr>,
      analytics_capture ''App: User Sign Up''
        (capture_properties (email vals) (toISOString (now C)) (utmSrc C))]"

definition onFormSubmit_catch :: "'e ctx \<Rightarrow> 'e \<Rightarrow> 'e run" where
  "onFormSubmit_catch C err =
     (let code = parseError C err;
          errorMessage =
            (case signupErrorMessages_get C code of
               Some v \<Rightarrow> Some v
             | None \<Rightarrow> signupErrorMessages_get C ''INVALID_REQUEST'')
      in ([toast \<lparr>title = ''An error occurred'',
                  description = translated errorMessage,
                  variant = Some destructive,
                  duration = None\<rparr>], Inr ()))"

definition onFormSubmit_settled :: "'e ctx \<Rightarrow> TSignUpFormSchema \<Rightarrow> 'e option \<Rightarrow> 'e run" where
  "onFormSubmit_settled C vals r =
     try_catch
       (case r of
          Some err \<Rightarrow> ([], Inl err)
        | None \<Rightarrow> (onFormSubmit_success C vals, Inr ()))
       (onFormSubmit_catch C)"

definition onFormSubmit :: "'e ctx \<Rightarrow> TSignUpFormSchema \<Rightarrow> 'e option \<Rightarrow> 'e run" where
  "onFormSubmit C vals r =
     (let (fx, out) = onFormSubmit_settled C vals r
      in (emailPassword_signUp (signUp_args vals) # fx, out))"

text \<open>
  \<open>onSignUpWithGoogleClick\<close> and \<open>onSignUpWithOIDCClick\<close>, lines 147 to 173; \<open>r\<close> is
  how the awaited \<open>signIn\<close> settles.
\<close>

definition unknown_error_toast :: toast_props where
  "unknown_error_toast =
     \<lparr>title = ''An unknown error occurred'',
      description = Some ''We encountered an unknown error while attempting to sign you Up. Please try again later.'',
      variant = Some destructive,
      duration = None\<rparr>"

definition onSignUpWithGoogleClick :: "'e option \<Rightarrow> 'e run" where
  "onSignUpWithGoogleClick r =
     try_catch
       (case r of Some err \<Rightarrow> ([google_signIn], Inl err) | None \<Rightarrow> ([google_signIn], Inr ()))
       (\<lambda>err. ([toast unknown_error_toast], Inr ()))"

definition onSignUpWithOIDCClick :: "'e option \<Rightarrow> 'e run" where
  "onSignUpWithOIDCClick r =
     try_catch
       (case r of Some err \<Rightarrow> ([oidc_signIn], Inl err) | None \<Rightarrow> ([oidc_signIn], Inr ()))
       (\<lambda>err. ([toast unknown_error_toast], Inr ()))"

section \<open>The form and its events\<close>

text \<open>
  The state \<open>useForm\<close> keeps (lines 87 to 98): the values of the fields, the flags
  \<open>formState.isValid\<close> and \<open>formState.isSubmitting\<close>, the errors shown under the
  fields. react-hook-form brings \<open>formState.isValid\<close> up to date on a change only once
  that flag has been read from \<open>form.formState\<close>: \<open>isValid_subscribed\<close> records
  whether it has. Two more components record what the component has done:
  \<open>outstanding\<close> holds the \<open>signUp\<close> calls that are awaited and not settled yet, each
  with the values \<open>onFormSubmit\<close> was called with and whether \<open>form.handleSubmit\<close>
  made the call; \<open>effects\<close> holds the calls made on the collaborators so far.
\<close>

record form_state =
  formValues :: TSignUpFormSchema
  isValid :: bool
  isValid_subscribed :: bool
  isSubmitting :: bool
  formErrors :: FieldErrors
  outstanding :: "(bool \<times> TSignUpFormSchema) list"
  effects :: "effect list"

definition useForm :: "'e ctx \<Rightarrow> form_state" where
  "useForm C =
     \<lparr>formValues =
        \<lparr>name = [],
         email = (case initialEmail C of Some e \<Rightarrow> e | None \<Rightarrow> []),
         password = [],
         signature = Some []\<rparr>,
      isValid = False,
      isValid_subscribed = False,
      isSubmitting = False,
      formErrors = [],
      outstanding = [],
      effects = []\<rparr>"

text \<open>The effect of lines 175 to 185: an email in the fragment is put into the form.\<close>

definition mount :: "'e ctx \<Rightarrow> form_state" where
  "mount C =
     (let st = useForm C
      in (case URLSearchParams_get (hashParams C) (js ''email'') of
            None \<Rightarrow> st
          | Some e \<Rightarrow>
              if e = [] then st else st\<lparr>formValues := (formValues st)\<lparr>email := e\<rparr>\<rparr>))"

datatype 'e event =
    change_name jsstring
  | change_email jsstring
  | change_password jsstring
  | change_signature "jsstring option"
  | submit_form
  | click_complete
  | signUp_settles nat "'e option"
  | click_google "'e option"
  | click_oidc "'e option"

text \<open>
  \<open>form.trigger(field)\<close>: the resolver runs on all values, \<open>isValid\<close> is set to its
  verdict and the error of that field is brought up to date.
\<close>

definition trigger_field :: "'e ctx \<Rightarrow> string \<Rightarrow> form_state \<Rightarrow> form_state" where
  "trigger_field C field st =
     (let res = zodResolver (zod C) (formValues st)
      in st\<lparr>isValid := (res_errors res = []),
             formErrors :=
               (case map_of (res_errors res) field of
                  Some m \<Rightarrow> [(field, m)]
                | None \<Rightarrow> [])
               @ filter (\<lambda>(k, m). k \<noteq> field) (formErrors st)\<rparr>)"

text \<open>
  A field changes (\<open>mode: 'onChange'\<close>): the value is stored, the resolver runs on all
  values and the error of the changed field is brought up to date. \<open>isValid\<close> is set
  to the verdict only when it is subscribed; otherwise it keeps the value it had.
\<close>

definition onChange ::
  "'e ctx \<Rightarrow> string \<Rightarrow> (TSignUpFormSchema \<Rightarrow> TSignUpFormSchema) \<Rightarrow> form_state \<Rightarrow> form_state"
where
  "onChange C field upd st =
     (let vals = upd (formValues st);
          res = zodResolver (zod C) vals
      in st\<lparr>formValues := vals,
             isValid := (if isValid_subscribed st then res_errors res = [] else isValid st),
             formErrors :=
               (case map_of (res_errors res) field of
                  Some m \<Rightarrow> [(field, m)]
                | None \<Rightarrow> [])
               @ filter (\<lambda>(k, m). k \<noteq> field) (formErrors st)\<rparr>)"

text \<open>\<open>form.trigger()\<close>: the resolver runs and its errors are shown.\<close>

definition trigger :: "'e ctx \<Rightarrow> form_state \<Rightarrow> form_state" where
  "trigger C st =
     (let res = zodResolver (zod C) (formValues st)
      in st\<lparr>isValid := (res_errors res = []), formErrors := res_errors res\<rparr>)"

text \<open>
  The \<open>onSubmit\<close> of the form element, lines 235 to 257, up to the await inside
  \<open>onFormSubmit\<close>. It reads \<open>form.formState.isValid\<close> (lines 239 and 249): the read
  returns the value the flag has and subscribes it.
\<close>

definition form_onSubmit :: "'e ctx \<Rightarrow> form_state \<Rightarrow> form_state" where
  "form_onSubmit C st =
     (if isValid st then
        (let vals = formValues st
         in st\<lparr>isValid_subscribed := True,
                outstanding := outstanding st @ [(False, vals)],
                effects := effects st @ [emailPassword_signUp (signUp_args vals)]\<rparr>)
      else trigger C (st\<lparr>isValid_subscribed := True\<rparr>))"

text \<open>
  \<open>form.handleSubmit(onValid, onInvalid)()\<close>, lines 408 to 416, up to the await inside
  \<open>onFormSubmit\<close>: \<open>isSubmitting\<close> is set, the resolver runs, and with no errors
  \<open>onValid\<close> is called with the values the resolver returns; with errors they are shown,
  \<open>onInvalid\<close> only prints, and \<open>isSubmitting\<close> is cleared.
\<close>

definition handleSubmit :: "'e ctx \<Rightarrow> form_state \<Rightarrow> form_state" where
  "handleSubmit C st =
     (let res = zodResolver (zod C) (formValues st)
      in (case res_values res of
            Some vals \<Rightarrow>
              st\<lparr>isSubmitting := True,
                 formErrors := [],
                 outstanding := outstanding st @ [(True, vals)],
                 effects := effects st @ [emailPassword_signUp (signUp_args vals)]\<rparr>
          | None \<Rightarrow> st\<lparr>isSubmitting := False, formErrors := res_errors res\<rparr>))"

text \<open>The Complete button, lines 397 to 420: disabled while \<open>isSubmitting\<close>.\<close>

definition complete_onClick :: "'e ctx \<Rightarrow> form_state \<Rightarrow> form_state" where
  "complete_onClick C st = (if isSubmitting st then st else handleSubmit C st)"

text \<open>
  The awaited \<open>signUp\<close> call number \<open>i\<close> settles: the rest of \<open>onFormSubmit\<close> runs, and
  \<open>handleSubmit\<close>, when it made the call, clears \<open>isSubmitting\<close>.
\<close>

definition signUp_settled :: "'e ctx \<Rightarrow> nat \<Rightarrow> 'e option \<Rightarrow> form_state \<Rightarrow> form_state" where
  "signUp_settled C i r st =
     (if i < length (outstanding st) then
        (let (viaHandleSubmit, vals) = outstanding st ! i;
             (fx, out) = onFormSubmit_settled C vals r
         in st\<lparr>outstanding := take i (outstanding st) @ drop (Suc i) (outstanding st),
                effects := effects st @ fx,
                isSubmitting := (if viaHandleSubmit then False else isSubmitting st)\<rparr>)
      else st)"

text \<open>
  The two SSO buttons, lines 355 to 385: rendered when the flag is set, disabled while
  \<open>isSubmitting\<close>.
\<close>

definition google_onClick :: "'e ctx \<Rightarrow> 'e option \<Rightarrow> form_state \<Rightarrow> form_state" where
  "google_onClick C r st =
     (if isGoogleSSOEnabled C \<and> \<not> isSubmitting st
      then st\<lparr>effects := effects st @ fst (onSignUpWithGoogleClick r)\<rparr>
      else st)"

definition oidc_onClick :: "'e ctx \<Rightarrow> 'e option \<Rightarrow> form_state \<Rightarrow> form_state" where
  "oidc_onClick C r st =
     (if isOIDCSSOEnabled C \<and> \<not> isSubmitting st
      then st\<lparr>effects := effects st @ fst (onSignUpWithOIDCClick r)\<rparr>
      else st)"

text \<open>
  One event. The inputs and the signature pad are disabled while \<open>isSubmitting\<close>; the
  signature pad stores the new value, or the empty string for a falsy one, and then calls
  \<open>form.trigger('signature')\<close> (lines 328 to 333).
\<close>

fun step :: "'e ctx \<Rightarrow> form_state \<Rightarrow> 'e event \<Rightarrow> form_state" where
  "step C st (change_name v) =
     (if isSubmitting st then st else onChange C ''name'' (\<lambda>vals. vals\<lparr>name := v\<rparr>) st)"
| "step C st (change_email v) =
     (if isSubmitting st then st else onChange C ''email'' (\<lambda>vals. vals\<lparr>email := v\<rparr>) st)"
| "step C st (change_password v) =
     (if isSubmitting st then st
      else onChange C ''password'' (\<lambda>vals. vals\<lparr>password := v\<rparr>) st)"
| "step C st (change_signature v) =
     (if isSubmitting st then st
      else trigger_field C ''signature''
             (onChange C ''signature''
                (\<lambda>vals. vals\<lparr>signature := Some (case or_null v of Some x \<Rightarrow> x | None \<Rightarrow> [])\<rparr>)
                st))"
| "step C st submit_form = form_onSubmit C st"
| "step C st click_complete = complete_onClick C st"
| "step C st (signUp_settles i r) = signUp_settled C i r st"
| "step C st (click_google r) = google_onClick C r st"
| "step C st (click_oidc r) = oidc_onClick C r st"

text \<open>The form after a sequence of events, from the mounted component.\<close>

definition run :: "'e ctx \<Rightarrow> 'e event list \<Rightarrow> form_state" where
  "run C evs = foldl (step C) (mount C) evs"

section \<open>Concrete collaborators\<close>

text \<open>
  To evaluate the component on concrete inputs the parameters need values. The email
  pattern is the one zod 3 matches against,
  \<^verbatim>\<open>/^(?!\.)(?!.*\.\.)([A-Z0-9_'+\-\.]*)[A-Z0-9_+-]@([A-Z0-9][A-Z0-9\-]*\.)+[A-Z]{2,}$/i\<close>,
  read as: one \<open>@\<close>; before it a non-empty local part of letters, digits and
  \<open>_ ' + - .\<close> that neither starts nor ends with a dot nor ends with a quote; no two dots
  in a row; after it at least one label (a letter or digit, then letters, digits and
  hyphens) followed by a dot each, and a last part of two or more letters.
\<close>

definition isDigit :: "code_unit \<Rightarrow> bool" where
  "isDigit c \<longleftrightarrow> 0x30 \<le> c \<and> c \<le> 0x39"

definition isAlpha :: "code_unit \<Rightarrow> bool" where
  "isAlpha c \<longleftrightarrow> (0x41 \<le> c \<and> c \<le> 0x5A) \<or> (0x61 \<le> c \<and> c \<le> 0x7A)"

definition isLocalChar :: "code_unit \<Rightarrow> bool" where
  "isLocalChar c \<longleftrightarrow>
     isAlpha c \<or> isDigit c \<or> c = 0x5F \<or> c = 0x27 \<or> c = 0x2B \<or> c = 0x2D \<or> c = 0x2E"

definition isLocalEnd :: "code_unit \<Rightarrow> bool" where
  "isLocalEnd c \<longleftrightarrow> isAlpha c \<or> isDigit c \<or> c = 0x5F \<or> c = 0x2B \<or> c = 0x2D"

definition isLabel :: "jsstring \<Rightarrow> bool" where
  "isLabel l \<longleftrightarrow>
     l \<noteq> [] \<and> (isAlpha (hd l) \<or> isDigit (hd l)) \<and>
     list_all (\<lambda>c. isAlpha c \<or> isDigit c \<or> c = 0x2D) l"

definition zod3_emailRegex :: "jsstring \<Rightarrow> bool" where
  "zod3_emailRegex s =
     (case String_split s 0x40 of
        [local, domain] \<Rightarrow>
          local \<noteq> [] \<and> hd local \<noteq> 0x2E \<and> \<not> String_includes s [0x2E, 0x2E] \<and>
          list_all isLocalChar local \<and> isLocalEnd (last local) \<and>
          (let labels = String_split domain 0x2E
           in 2 \<le> length labels \<and> list_all isLabel (butlast labels) \<and>
              2 \<le> length (last labels) \<and> list_all isAlpha (last labels))
      | _ \<Rightarrow> False)"

text \<open>A strength policy of one rule, standing for the imported one.\<close>

definition example_deps :: zod_deps where
  "example_deps =
     \<lparr>emailRegex = zod3_emailRegex,
      ZPasswordSchema =
        (\<lambda>pw. if length pw < 8 then [''Must be at least 8 characters in length''] else [])\<rparr>"

text \<open>
  A page opened as \<open>/signup?utm_source=newsletter\<close> with both SSO buttons shown; a thrown
  error is represented by the code \<open>AppError.parseError\<close> gives it.
\<close>

definition example_ctx :: "string ctx" where
  "example_ctx =
     \<lparr>zod = example_deps,
      ALREADY_EXISTS = ''ALREADY_EXISTS'',
      INVALID_REQUEST = ''INVALID_REQUEST'',
      parseError = (\<lambda>code. code),
      searchParams = [(js ''utm_source'', js ''newsletter'')],
      now = 1700000000000,
      initialEmail = None,
      hashParams = [],
      isGoogleSSOEnabled = True,
      isOIDCSSOEnabled = True\<rparr>"

section \<open>The shape of a timestamp\<close>

text \<open>
  A text matches a pattern when it has the pattern's length, a decimal digit wherever
  the pattern has \<open>d\<close> and the pattern's own character elsewhere. The ISO 8601 shapes
  are those of the ECMAScript date-time string format, with a four-digit year or a signed
  six-digit one.
\<close>

definition isDecimal :: "char \<Rightarrow> bool" where
  "isDecimal c \<longleftrightarrow> 48 \<le> (of_char c :: nat) \<and> (of_char c :: nat) \<le> 57"

fun matches :: "string \<Rightarrow> string \<Rightarrow> bool" where
  "matches [] [] = True"
| "matches (p # ps) (c # cs) = ((if p = CHR ''d'' then isDecimal c else c = p) \<and> matches ps cs)"
| "matches [] (c # cs) = False"
| "matches (p # ps) [] = False"

definition is_ISO8601 :: "string \<Rightarrow> bool" where
  "is_ISO8601 s \<longleftrightarrow>
     matches ''dddd-dd-ddTdd:dd:dd.dddZ'' s \<or>
     matches ''+dddddd-dd-ddTdd:dd:dd.dddZ'' s \<or>
     matches ''-dddddd-dd-ddTdd:dd:dd.dddZ'' s"

section \<open>Notions used in the proofs\<close>

text \<open>
  The issues of the three checked fields, in the order the object raises them; the value
  the object hands to the refinement; and what it means for the schema to accept.
\<close>

definition email_issues :: "zod_deps \<Rightarrow> jsstring \<Rightarrow> ZodIssue list" where
  "email_issues D e =
     (if \<not> emailRegex D e then [\<lparr>message = ''Invalid email'', path = [''email'']\<rparr>] else []) @
     (if e = []
      then [\<lparr>message = ''String must contain at least 1 character(s)'', path = [''email'']\<rparr>]
      else [])"

definition field_issues :: "zod_deps \<Rightarrow> TSignUpFormSchema \<Rightarrow> ZodIssue list" where
  "field_issues D d =
     snd (name_schema D (name d)) @ snd (email_schema D (email d)) @
     snd (password_schema D (password d))"

definition trimmed :: "TSignUpFormSchema \<Rightarrow> TSignUpFormSchema" where
  "trimmed d = d\<lparr>name := String_trim (name d)\<rparr>"

definition passes :: "zod_deps \<Rightarrow> TSignUpFormSchema \<Rightarrow> bool" where
  "passes D d = (case ZSignUpFormSchema D d of success v \<Rightarrow> True | failure is \<Rightarrow> False)"

text \<open>
  What holds of every state the form reaches: a submission through \<open>handleSubmit\<close> is
  in flight only on values the schema accepts, since the inputs are disabled meanwhile.
\<close>

definition form_inv :: "'e ctx \<Rightarrow> form_state \<Rightarrow> bool" where
  "form_inv C st = (if isSubmitting st then passes (zod C) (formValues st) else True)"

section \<open>Strings: substrings, trimming, splitting\<close>

lemma includes_sublist: "String_includes s t \<longleftrightarrow> sublist t s"
  by (induction s) (auto simp: sublist_Cons_right)

lemma trim_sublist: "sublist (String_trim s) s"
proof -
  have "prefix (String_trim s) (dropWhile isWhiteSpace s)"
    unfolding String_trim_def
    by (metis suffix_dropWhile suffix_to_prefix rev_rev_ident)
  then have "sublist (String_trim s) (dropWhile isWhiteSpace s)" by (rule prefix_imp_sublist)
  moreover have "sublist (dropWhile isWhiteSpace s) s"
    by (rule suffix_imp_sublist) (rule suffix_dropWhile)
  ultimately show ?thesis by (rule sublist_order.order_trans)
qed

lemma includes_trim: "String_includes s t \<Longrightarrow> String_includes s (String_trim t)"
  unfolding includes_sublist using trim_sublist sublist_order.order_trans by blast

lemma split_nonempty: "String_split s c \<noteq> []"
  by (induction s) (auto split: list.splits)

lemma hd_split: "hd (String_split s c) = takeWhile (\<lambda>x. x \<noteq> c) s"
  by (induction s) (auto split: list.splits simp: split_nonempty)

lemma name_schema_eq:
  "name_schema D n =
     (if String_trim n = []
      then (DIRTY [], [\<lparr>message = ''Please enter a valid name.'', path = [''name'']\<rparr>])
      else (OK (String_trim n), []))"
  by (cases "String_trim n") (simp_all add: name_schema_def ZodString_parse_def)

lemma email_schema_eq:
  "email_schema D e = (if email_issues D e = [] then OK e else DIRTY e, email_issues D e)"
  by (cases e) (simp_all add: email_schema_def ZodString_parse_def email_issues_def)

lemma object_parse_eq:
  "ZodObject_parse D d =
     (if field_issues D d = [] then OK (trimmed d) else DIRTY (trimmed d), field_issues D d)"
  by (cases d)
     (auto simp: ZodObject_parse_def field_issues_def trimmed_def name_schema_eq email_schema_eq
        password_schema_def signature_schema_def Let_def)

lemma parse_eq:
  "ZSignUpFormSchema_parse D d =
     (if field_issues D d = [] \<and> refinement (trimmed d) then OK (trimmed d)
      else DIRTY (trimmed d),
      field_issues D d @ (if refinement (trimmed d) then [] else [refinement_issue]))"
  by (simp add: ZSignUpFormSchema_parse_def object_parse_eq)

lemma schema_eq:
  "ZSignUpFormSchema D d =
     (if field_issues D d = [] \<and> refinement (trimmed d) then success (trimmed d)
      else failure (field_issues D d @ (if refinement (trimmed d) then [] else [refinement_issue])))"
  by (simp add: ZSignUpFormSchema_def parse_eq)

lemma field_issues_Nil:
  "field_issues D d = [] \<longleftrightarrow>
     String_trim (name d) \<noteq> [] \<and> emailRegex D (email d) \<and> email d \<noteq> [] \<and>
     ZPasswordSchema D (password d) = []"
  by (auto simp: field_issues_def name_schema_eq email_schema_eq email_issues_def
        password_schema_def Let_def)

lemma refinement_trimmed:
  "refinement (trimmed d) \<longleftrightarrow>
     \<not> String_includes (password d) (String_trim (name d)) \<and>
     \<not> String_includes (password d) (hd (String_split (email d) 0x40))"
  by (simp add: refinement_def trimmed_def)

section \<open>The resolver and the invariant of the form\<close>

lemma passes_iff:
  "passes D d \<longleftrightarrow> field_issues D d = [] \<and> refinement (trimmed d)"
  by (simp add: passes_def schema_eq)

lemma parseErrorSchema_Nil: "parseErrorSchema is = [] \<longleftrightarrow> is = []"
  by (cases "is") simp_all

lemma resolver_passes:
  "passes D d \<Longrightarrow> zodResolver D d = \<lparr>res_values = Some (trimmed d), res_errors = []\<rparr>"
  by (simp add: zodResolver_def passes_iff schema_eq)

lemma resolver_fails:
  "\<not> passes D d \<Longrightarrow>
     res_values (zodResolver D d) = None \<and> res_errors (zodResolver D d) \<noteq> []"
  by (auto simp: zodResolver_def passes_iff schema_eq parseErrorSchema_Nil)

lemma resolver_errors_Nil: "res_errors (zodResolver D d) = [] \<longleftrightarrow> passes D d"
  using resolver_passes [of D d] resolver_fails [of D d] by auto

lemma trim_Nil: "String_trim [] = []"
  by (simp add: String_trim_def)



lemma trigger_field_isSubmitting: "isSubmitting (trigger_field C f st) = isSubmitting st"
  by (simp add: trigger_field_def Let_def)



lemma inv_trigger: "form_inv C st \<Longrightarrow> form_inv C (trigger C st)"
  by (simp add: form_inv_def trigger_def Let_def)







section \<open>Every timestamp has the ISO 8601 shape\<close>

lemma isDecimal_digit: "isDecimal (digit k)"
proof -
  have "nat (k mod 10) < 10" by simp
  then have "48 + nat (k mod 10) < 256" by arith
  then show ?thesis by (simp add: isDecimal_def digit_def)
qed

lemma matches_pad:
  "matches (replicate n CHR ''d'' @ ps) (pad n k @ cs) = matches ps cs"
proof (induction n arbitrary: k ps cs)
  case 0
  show ?case by simp
next
  case (Suc n)
  have "matches (replicate (Suc n) CHR ''d'' @ ps) (pad (Suc n) k @ cs)
        = matches (replicate n CHR ''d'' @ (CHR ''d'' # ps)) (pad n (k div 10) @ (digit k # cs))"
    by (simp add: replicate_app_Cons_same)
  also have "\<dots> = matches (CHR ''d'' # ps) (digit k # cs)" by (rule Suc.IH)
  also have "\<dots> = matches ps cs" by (simp add: isDecimal_digit)
  finally show ?case .
qed

lemma matches_pad2: "matches (CHR ''d'' # CHR ''d'' # ps) (pad 2 k @ cs) = matches ps cs"
  using matches_pad [of 2 ps k cs] by (simp add: numeral_2_eq_2)

lemma matches_pad3:
  "matches (CHR ''d'' # CHR ''d'' # CHR ''d'' # ps) (pad 3 k @ cs) = matches ps cs"
  using matches_pad [of 3 ps k cs] by (simp add: numeral_3_eq_3)

lemma matches_pad4:
  "matches (CHR ''d'' # CHR ''d'' # CHR ''d'' # CHR ''d'' # ps) (pad 4 k @ cs) = matches ps cs"
  using matches_pad [of 4 ps k cs] by (simp add: eval_nat_numeral)

lemma matches_pad6:
  "matches (CHR ''d'' # CHR ''d'' # CHR ''d'' # CHR ''d'' # CHR ''d'' # CHR ''d'' # ps)
     (pad 6 k @ cs) = matches ps cs"
  using matches_pad [of 6 ps k cs] by (simp add: eval_nat_numeral)

lemma matches_tail:
  "matches ''-dd-ddTdd:dd:dd.dddZ''
     (''-'' @ pad 2 m @ ''-'' @ pad 2 d
         @ ''T'' @ pad 2 h @ '':'' @ pad 2 mi
         @ '':'' @ pad 2 s @ ''.'' @ pad 3 ms @ ''Z'')"
  apply (simp only: append_Cons append_Nil matches_pad2 matches_pad3 matches.simps)
  apply simp
  done

lemma toISOString_shape: "is_ISO8601 (toISOString t)"
proof -
  obtain y m d where c: "civil_from_days (t div 86400000) = (y, m, d)"
    by (cases "civil_from_days (t div 86400000)") auto
  let ?tail = "''-'' @ pad 2 m @ ''-'' @ pad 2 d
         @ ''T'' @ pad 2 (t mod 86400000 div 3600000) @ '':'' @ pad 2 (t mod 86400000 div 60000 mod 60)
         @ '':'' @ pad 2 (t mod 86400000 div 1000 mod 60) @ ''.'' @ pad 3 (t mod 86400000 mod 1000) @ ''Z''"
  have tail: "matches ''-dd-ddTdd:dd:dd.dddZ'' ?tail" by (rule matches_tail)
  have eq: "toISOString t = (if 0 \<le> y \<and> y \<le> 9999 then pad 4 y
          else (if y < 0 then ''-'' else ''+'') @ pad 6 \<bar>y\<bar>) @ ?tail"
    by (simp add: toISOString_def c Let_def)
  show ?thesis
  proof (cases "0 \<le> y \<and> y \<le> 9999")
    case True
    have "matches ''dddd-dd-ddTdd:dd:dd.dddZ'' (pad 4 y @ ?tail)"
      using tail by (simp only: matches_pad4)
    with True show ?thesis by (simp only: eq is_ISO8601_def if_True simp_thms)
  next
    case False
    show ?thesis
    proof (cases "y < 0")
      case True
      have "matches ''-dddddd-dd-ddTdd:dd:dd.dddZ'' ((''-'' @ pad 6 \<bar>y\<bar>) @ ?tail)"
        using tail by (simp only: append_Cons append_Nil matches.simps matches_pad6) simp
      with True False show ?thesis by (simp only: eq is_ISO8601_def if_True if_False simp_thms)
    next
      case nonneg: False
      have "matches ''+dddddd-dd-ddTdd:dd:dd.dddZ'' ((''+'' @ pad 6 \<bar>y\<bar>) @ ?tail)"
        using tail by (simp only: append_Cons append_Nil matches.simps matches_pad6) simp
      with nonneg False show ?thesis by (simp only: eq is_ISO8601_def if_True if_False simp_thms)
    qed
  qed
qed

section \<open>The claims about the schema\<close>

lemma parseErrorSchema_keys:
  "i \<in> set is \<Longrightarrow> Array_join (path i) ''.'' \<in> fst ` set (parseErrorSchema is)"
proof (induction "is")
  case Nil
  then show ?case by simp
next
  case (Cons j js)
  show ?case
  proof (cases "Array_join (path i) ''.'' = Array_join (path j) ''.''")
    case True
    then show ?thesis by simp
  next
    case False
    with Cons have "Array_join (path i) ''.'' \<in> fst ` set (parseErrorSchema js)" by auto
    with False show ?thesis by (auto simp: image_iff)
  qed
qed

text \<open>
  Claim C2. Whenever the password contains the name as a run of code units (case
  sensitive), or contains the text of the email before its first \<open>@\<close>, validation
  fails and raises the cross-field issue on the path \<open>password\<close>, so the form shows
  an error under the password field. Nothing is assumed about the name, the syntax of the
  email or the strength of the password: the object parser reports their issues and goes
  on, and the refinement runs all the same.
\<close>

theorem password_with_personal_information_fails:
  assumes "String_includes (password d) (name d) \<or>
           String_includes (password d) (takeWhile (\<lambda>c. c \<noteq> 0x40) (email d))"
  shows "\<exists>is. ZSignUpFormSchema D d = failure is \<and> refinement_issue \<in> set is \<and>
              path refinement_issue = [''password''] \<and>
              ''password'' \<in> fst ` set (res_errors (zodResolver D d))"
proof -
  from assms have "\<not> refinement (trimmed d)"
    by (auto simp: refinement_trimmed hd_split dest: includes_trim)
  then have eq: "ZSignUpFormSchema D d = failure (field_issues D d @ [refinement_issue])"
    by (simp add: schema_eq)
  have "Array_join (path refinement_issue) ''.''
          \<in> fst ` set (parseErrorSchema (field_issues D d @ [refinement_issue]))"
    by (rule parseErrorSchema_keys) simp
  then have "''password'' \<in> fst ` set (res_errors (zodResolver D d))"
    by (simp add: zodResolver_def eq refinement_issue_def)
  with eq show ?thesis by (simp add: refinement_issue_def)
qed


theorem password_with_personal_information_fails_witness:
  "String_includes (js ''my-Ann Lee-pw'') (js ''Ann Lee'') \<and>
   (\<exists>is. ZSignUpFormSchema example_deps
            \<lparr>name = js ''Ann Lee'', email = js ''not an email'',
             password = js ''my-Ann Lee-pw'', signature = None\<rparr> = failure is \<and>
         refinement_issue \<in> set is \<and> path refinement_issue = [''password''] \<and>
         ''password'' \<in> fst ` set (res_errors (zodResolver example_deps
            \<lparr>name = js ''Ann Lee'', email = js ''not an email'',
             password = js ''my-Ann Lee-pw'', signature = None\<rparr>)))"
proof -
  let ?d = "\<lparr>name = js ''Ann Lee'', email = js ''not an email'',
             password = js ''my-Ann Lee-pw'', signature = None\<rparr>"
  have h: "String_includes (js ''my-Ann Lee-pw'') (js ''Ann Lee'')" by code_simp
  then have "String_includes (password ?d) (name ?d) \<or>
           String_includes (password ?d) (takeWhile (\<lambda>c. c \<noteq> 0x40) (email ?d))"
    by simp
  from password_with_personal_information_fails [OF this, of example_deps] h
  show ?thesis by blast
qed

text \<open>
  Claim C1, amended. The name the refinement sees is the trimmed one. For every input
  whose name is not empty after trimming, whose email matches the pattern and is not
  empty, and whose password raises no issue of the strength policy: the schema accepts,
  returning the input with its name trimmed, exactly when the password contains neither
  the trimmed name nor the text of the email before \<open>@\<close>; otherwise it fails with the
  one cross-field issue, on the path \<open>password\<close>.
\<close>

theorem valid_iff_password_free_of_trimmed_name:
  assumes "String_trim (name d) \<noteq> []"
    and "emailRegex D (email d)" and "email d \<noteq> []"
    and "ZPasswordSchema D (password d) = []"
  shows "ZSignUpFormSchema D d =
           (if String_includes (password d) (String_trim (name d)) \<or>
               String_includes (password d) (takeWhile (\<lambda>c. c \<noteq> 0x40) (email d))
            then failure [refinement_issue]
            else success (d\<lparr>name := String_trim (name d)\<rparr>))
         \<and> path refinement_issue = [''password'']"
proof -
  from assms have "field_issues D d = []" by (simp add: field_issues_Nil)
  then show ?thesis
    by (auto simp: schema_eq trimmed_def refinement_def hd_split refinement_issue_def)
qed

theorem valid_iff_password_free_of_trimmed_name_witness:
  "String_trim (js '' Ann Lee '') \<noteq> [] \<and>
   emailRegex example_deps (js ''ann@x.com'') \<and> js ''ann@x.com'' \<noteq> [] \<and>
   ZPasswordSchema example_deps (js ''X9!secret'') = [] \<and>
   ZSignUpFormSchema example_deps
     \<lparr>name = js '' Ann Lee '', email = js ''ann@x.com'', password = js ''X9!secret'',
      signature = None\<rparr>
   = success \<lparr>name = js ''Ann Lee'', email = js ''ann@x.com'', password = js ''X9!secret'',
      signature = None\<rparr>"
proof -
  let ?d = "\<lparr>name = js '' Ann Lee '', email = js ''ann@x.com'', password = js ''X9!secret'',
      signature = None\<rparr>"
  have h1: "String_trim (name ?d) \<noteq> []" by code_simp
  have h2: "emailRegex example_deps (email ?d)" by code_simp
  have h3: "email ?d \<noteq> []" by code_simp
  have h4: "ZPasswordSchema example_deps (password ?d) = []" by code_simp
  have t: "String_trim (js '' Ann Lee '') = js ''Ann Lee''" by code_simp
  have n1: "\<not> String_includes (js ''X9!secret'') (js ''Ann Lee'')" by code_simp
  have n2: "\<not> String_includes (js ''X9!secret'') (takeWhile (\<lambda>c. c \<noteq> 0x40) (js ''ann@x.com''))"
    by code_simp
  from valid_iff_password_free_of_trimmed_name [OF h1 h2 h3 h4] h1 h2 h3 h4 t n1 n2
  show ?thesis by simp
qed

text \<open>
  Claim C1 as stated speaks of the name as it was typed. With the name \<open>'' Ann''\<close>
  (a leading space) the password \<open>''Ann#12345x''\<close> contains neither that name nor the
  local part \<open>bob\<close>, the three fields are valid, and yet the schema rejects: the
  password contains the trimmed name.
\<close>

theorem untrimmed_name_counterexample:
  "String_trim (js '' Ann'') \<noteq> [] \<and>
   emailRegex example_deps (js ''bob@example.com'') \<and>
   ZPasswordSchema example_deps (js ''Ann#12345x'') = [] \<and>
   \<not> String_includes (js ''Ann#12345x'') (js '' Ann'') \<and>
   \<not> String_includes (js ''Ann#12345x'') (takeWhile (\<lambda>c. c \<noteq> 0x40) (js ''bob@example.com'')) \<and>
   ZSignUpFormSchema example_deps
     \<lparr>name = js '' Ann'', email = js ''bob@example.com'', password = js ''Ann#12345x'',
      signature = None\<rparr>
   = failure [refinement_issue]"
  by code_simp

section \<open>The claims about the submission\<close>



lemma complete_click_submits:
  assumes "passes (zod C) (formValues st)" and "\<not> isSubmitting st"
  shows "step C st click_complete =
           st\<lparr>isSubmitting := True,
              formErrors := [],
              outstanding := outstanding st @ [(True, trimmed (formValues st))],
              effects := effects st @
                [emailPassword_signUp (signUp_args (trimmed (formValues st)))]\<rparr>"
  using assms by (simp add: complete_onClick_def handleSubmit_def resolver_passes)


lemma form_submit_calls:
  assumes "isValid st"
  shows "step C st submit_form =
           st\<lparr>isValid_subscribed := True,
              outstanding := outstanding st @ [(False, formValues st)],
              effects := effects st @ [emailPassword_signUp (signUp_args (formValues st))]\<rparr>"
  using assms by (simp add: form_onSubmit_def Let_def)

lemma form_submit_declines:
  assumes "\<not> isValid st"
  shows "step C st submit_form = trigger C (st\<lparr>isValid_subscribed := True\<rparr>)"
  using assms by (simp add: form_onSubmit_def)

lemma settle_success:
  assumes "i < length (outstanding st)"
  shows "effects (step C st (signUp_settles i None))
         = effects st @ onFormSubmit_success C (snd (outstanding st ! i))"
  using assms
  by (simp add: signUp_settled_def onFormSubmit_settled_def try_catch_def Let_def
        split: prod.splits)




text \<open>
  Claim C4. When the awaited \<open>signUp\<close> resolves, \<open>onFormSubmit\<close> has made exactly
  these calls, in this order: the \<open>signUp\<close> call, one \<open>navigate\<close> to
  \<open>/unverified-account\<close>, one toast (the success notification, five seconds), one
  \<open>analytics.capture\<close> of \<open>App: User Sign Up\<close> carrying the email, the time of the call
  as \<open>toISOString\<close> prints it, and the \<open>utm_source\<close> parameter of the page, \<open>null\<close>
  when there is none; and it returns normally. What \<open>toISOString\<close> prints has the ISO
  8601 shape, whatever the time. In the form, the three calls after \<open>signUp\<close> are what
  the settling of an outstanding call adds (\<open>settle_success\<close>).
\<close>

theorem successful_signUp_navigates_notifies_records:
  "onFormSubmit C vals None =
     ([emailPassword_signUp (signUp_args vals),
       navigate ''/unverified-account'',
       toast \<lparr>title = ''Registration Successful'',
              description = Some ''You have successfully registered. Please verify your account by clicking on the link you received in the email.'',
              variant = None,
              duration = Some 5000\<rparr>,
       analytics_capture ''App: User Sign Up''
         (capture_properties (email vals) (toISOString (now C))
            (URLSearchParams_get (searchParams C) (js ''utm_source'')))],
      Inr ())
   \<and> is_ISO8601 (toISOString (now C))"
  by (simp add: onFormSubmit_def onFormSubmit_settled_def try_catch_def
        onFormSubmit_success_def utmSrc_def toISOString_shape)

theorem successful_signUp_navigates_notifies_records_witness:
  "onFormSubmit example_ctx
     \<lparr>name = js ''Ann Lee'', email = js ''ann@x.com'', password = js ''X9!secret'',
      signature = Some []\<rparr> None =
     ([emailPassword_signUp
         (signUp_request (js ''Ann Lee'') (js ''ann@x.com'') (js ''X9!secret'') None),
       navigate ''/unverified-account'',
       toast \<lparr>title = ''Registration Successful'',
              description = Some ''You have successfully registered. Please verify your account by clicking on the link you received in the email.'',
              variant = None,
              duration = Some 5000\<rparr>,
       analytics_capture ''App: User Sign Up''
         (capture_properties (js ''ann@x.com'') ''2023-11-14T22:13:20.000Z''
            (Some (js ''newsletter'')))],
      Inr ())
   \<and> is_ISO8601 ''2023-11-14T22:13:20.000Z''"
proof -
  have ts: "toISOString (now example_ctx) = ''2023-11-14T22:13:20.000Z''" by code_simp
  have u: "URLSearchParams_get (searchParams example_ctx) (js ''utm_source'')
             = Some (js ''newsletter'')" by code_simp
  from successful_signUp_navigates_notifies_records [of example_ctx
      "\<lparr>name = js ''Ann Lee'', email = js ''ann@x.com'', password = js ''X9!secret'',
        signature = Some []\<rparr>"] ts u
  show ?thesis by (simp add: signUp_args_def or_null_def)
qed

text \<open>
  The submit event of the form never sets \<open>isSubmitting\<close>: once \<open>isValid\<close> reads true,
  every further submit event makes one more call, whatever is outstanding. Here the first
  event finds the flag false and validates, the second and the third each call
  \<open>signUp\<close>.
\<close>

lemma form_submit_events_overlap:
  "isSubmitting (run example_ctx
      [change_name (js ''Ann Lee''), change_email (js ''ann@x.com''),
       change_password (js ''X9!secret''), submit_form, submit_form, submit_form]) = False \<and>
   outstanding (run example_ctx
      [change_name (js ''Ann Lee''), change_email (js ''ann@x.com''),
       change_password (js ''X9!secret''), submit_form, submit_form, submit_form])
     = [(False, \<lparr>name = js ''Ann Lee'', email = js ''ann@x.com'',
                  password = js ''X9!secret'', signature = Some []\<rparr>),
        (False, \<lparr>name = js ''Ann Lee'', email = js ''ann@x.com'',
                  password = js ''X9!secret'', signature = Some []\<rparr>)]"
  by code_simp




text \<open>
  Claim C6. When \<open>signUp\<close> throws an error that \<open>AppError.parseError\<close> gives the code
  \<open>AppErrorCode.ALREADY_EXISTS\<close>, \<open>onFormSubmit\<close> shows one destructive toast whose
  description is exactly the text below, and returns normally. The two enum members the
  table is keyed by are taken to be different strings.
\<close>

theorem already_exists_message:
  assumes "parseError C err = ALREADY_EXISTS C"
    and "ALREADY_EXISTS C \<noteq> INVALID_REQUEST C"
  shows "onFormSubmit C vals (Some err) =
     ([emailPassword_signUp (signUp_args vals),
       toast \<lparr>title = ''An error occurred'',
              description = Some ''User with this email already exists. Please use a different email address.'',
              variant = Some destructive,
              duration = None\<rparr>],
      Inr ())"
  using assms
  by (simp add: onFormSubmit_def onFormSubmit_settled_def try_catch_def
        onFormSubmit_catch_def signupErrorMessages_get_def signupErrorMessages_def Let_def)

theorem already_exists_message_witness:
  "parseError example_ctx ''ALREADY_EXISTS'' = ALREADY_EXISTS example_ctx \<and>
   ALREADY_EXISTS example_ctx \<noteq> INVALID_REQUEST example_ctx \<and>
   onFormSubmit example_ctx
     \<lparr>name = js ''Ann Lee'', email = js ''ann@x.com'', password = js ''X9!secret'',
      signature = Some []\<rparr> (Some ''ALREADY_EXISTS'') =
     ([emailPassword_signUp
         (signUp_request (js ''Ann Lee'') (js ''ann@x.com'') (js ''X9!secret'') None),
       toast \<lparr>title = ''An error occurred'',
              description = Some ''User with this email already exists. Please use a different email address.'',
              variant = Some destructive,
              duration = None\<rparr>],
      Inr ())"
proof -
  have h1: "parseError example_ctx ''ALREADY_EXISTS'' = ALREADY_EXISTS example_ctx"
    by (simp add: example_ctx_def)
  have h2: "ALREADY_EXISTS example_ctx \<noteq> INVALID_REQUEST example_ctx"
    by (simp add: example_ctx_def)
  have a: "signUp_args \<lparr>name = js ''Ann Lee'', email = js ''ann@x.com'',
      password = js ''X9!secret'', signature = Some []\<rparr>
    = signUp_request (js ''Ann Lee'') (js ''ann@x.com'') (js ''X9!secret'') None"
    by (simp add: signUp_args_def or_null_def)
  from already_exists_message [OF h1 h2] h1 h2 a show ?thesis by simp
qed




text \<open>
  Claim C8. When \<open>google.signIn\<close> or \<open>oidc.signIn\<close> throws, whatever the error, the
  handler catches it, shows one and the same destructive toast and returns normally. A
  click on either button does not consult the schema: replacing the parts of the schema
  by any others leaves the outcome of the click unchanged, and the click touches neither
  the errors under the fields nor \<open>isValid\<close>.
\<close>

theorem sso_errors_one_generic_toast:
  "onSignUpWithGoogleClick (Some err) =
     ([google_signIn,
       toast \<lparr>title = ''An unknown error occurred'',
              description = Some ''We encountered an unknown error while attempting to sign you Up. Please try again later.'',
              variant = Some destructive,
              duration = None\<rparr>], Inr ()) \<and>
   onSignUpWithOIDCClick (Some err) =
     ([oidc_signIn,
       toast \<lparr>title = ''An unknown error occurred'',
              description = Some ''We encountered an unknown error while attempting to sign you Up. Please try again later.'',
              variant = Some destructive,
              duration = None\<rparr>], Inr ()) \<and>
   step (C\<lparr>zod := D\<rparr>) st (click_google r) = step C st (click_google r) \<and>
   step (C\<lparr>zod := D\<rparr>) st (click_oidc r) = step C st (click_oidc r) \<and>
   formErrors (step C st (click_google r)) = formErrors st \<and>
   formErrors (step C st (click_oidc r)) = formErrors st \<and>
   isValid (step C st (click_google r)) = isValid st \<and>
   isValid (step C st (click_oidc r)) = isValid st"
  by (simp add: onSignUpWithGoogleClick_def onSignUpWithOIDCClick_def try_catch_def
        unknown_error_toast_def google_onClick_def oidc_onClick_def)

text \<open>
  Claim C10, amended. The schema trims the name as a transformation: the value it
  returns is the input with the name trimmed; a password that contains the trimmed name
  is rejected with the cross-field issue; a password that contains the name as typed
  contains the trimmed name too, so it is rejected as well; and a click on Complete, which
  submits through \<open>form.handleSubmit\<close>, passes the trimmed name to \<open>signUp\<close>.
\<close>

theorem trimmed_name_validated_and_submitted:
  "(ZSignUpFormSchema D d = success v \<longrightarrow> v = d\<lparr>name := String_trim (name d)\<rparr>) \<and>
   (String_includes (password d) (String_trim (name d)) \<longrightarrow>
      (\<exists>is. ZSignUpFormSchema D d = failure is \<and> refinement_issue \<in> set is)) \<and>
   (String_includes (password d) (name d) \<longrightarrow>
      String_includes (password d) (String_trim (name d))) \<and>
   (ZSignUpFormSchema (zod C) (formValues st) = success v \<and> \<not> isSubmitting st \<longrightarrow>
      effects (step C st click_complete) =
        effects st @
          [emailPassword_signUp
             (signUp_request (String_trim (name (formValues st))) (email (formValues st))
                (password (formValues st)) (or_null (signature (formValues st))))])"
proof (intro conjI impI)
  assume "ZSignUpFormSchema D d = success v"
  then show "v = d\<lparr>name := String_trim (name d)\<rparr>"
    by (simp add: schema_eq trimmed_def split: if_splits)
next
  assume "String_includes (password d) (String_trim (name d))"
  then have "\<not> refinement (trimmed d)" by (simp add: refinement_trimmed)
  then show "\<exists>is. ZSignUpFormSchema D d = failure is \<and> refinement_issue \<in> set is"
    by (simp add: schema_eq)
next
  assume "String_includes (password d) (name d)"
  then show "String_includes (password d) (String_trim (name d))" by (rule includes_trim)
next
  assume a: "ZSignUpFormSchema (zod C) (formValues st) = success v \<and> \<not> isSubmitting st"
  then have "passes (zod C) (formValues st)" by (simp add: passes_def)
  from complete_click_submits [OF this] a
  show "effects (step C st click_complete) =
        effects st @
          [emailPassword_signUp
             (signUp_request (String_trim (name (formValues st))) (email (formValues st))
                (password (formValues st)) (or_null (signature (formValues st))))]"
    by (simp add: signUp_args_def trimmed_def)
qed

theorem trimmed_name_validated_and_submitted_witness:
  "ZSignUpFormSchema example_deps
     \<lparr>name = js '' Ann Lee '', email = js ''ann@x.com'', password = js ''X9!secret'',
      signature = Some []\<rparr>
   = success \<lparr>name = js ''Ann Lee'', email = js ''ann@x.com'', password = js ''X9!secret'',
      signature = Some []\<rparr> \<and>
   String_includes (js ''X9! Ann Lee !'') (js '' Ann Lee '') \<and>
   String_includes (js ''X9! Ann Lee !'') (String_trim (js '' Ann Lee '')) \<and>
   (\<exists>is. ZSignUpFormSchema example_deps
            \<lparr>name = js '' Ann Lee '', email = js ''ann@x.com'',
             password = js ''X9! Ann Lee !'', signature = Some []\<rparr> = failure is \<and>
         refinement_issue \<in> set is) \<and>
   isSubmitting (run example_ctx
      [change_name (js '' Ann Lee ''), change_email (js ''ann@x.com''),
       change_password (js ''X9!secret'')]) = False \<and>
   effects (step example_ctx (run example_ctx
      [change_name (js '' Ann Lee ''), change_email (js ''ann@x.com''),
       change_password (js ''X9!secret'')]) click_complete)
   = [emailPassword_signUp
        (signUp_request (js ''Ann Lee'') (js ''ann@x.com'') (js ''X9!secret'') None)]"
proof -
  let ?d1 = "\<lparr>name = js '' Ann Lee '', email = js ''ann@x.com'', password = js ''X9!secret'',
      signature = Some []\<rparr>"
  let ?v1 = "\<lparr>name = js ''Ann Lee'', email = js ''ann@x.com'', password = js ''X9!secret'',
      signature = Some []\<rparr>"
  let ?d2 = "\<lparr>name = js '' Ann Lee '', email = js ''ann@x.com'',
             password = js ''X9! Ann Lee !'', signature = Some []\<rparr>"
  let ?st = "run example_ctx
      [change_name (js '' Ann Lee ''), change_email (js ''ann@x.com''),
       change_password (js ''X9!secret'')]"
  have s1: "ZSignUpFormSchema example_deps ?d1 = success ?v1" by code_simp
  have i2: "String_includes (password ?d2) (name ?d2)" by code_simp
  have v: "formValues ?st = ?d1" by code_simp
  have z: "zod example_ctx = example_deps" by (simp add: example_ctx_def)
  have ns: "\<not> isSubmitting ?st" by code_simp
  have e0: "effects ?st = []" by code_simp
  have t: "String_trim (js '' Ann Lee '') = js ''Ann Lee''" by code_simp
  have o: "or_null (Some []) = None" by code_simp
  note a = trimmed_name_validated_and_submitted [of example_deps ?d2 ?v1 example_ctx ?st]
  from a i2 have "String_includes (password ?d2) (String_trim (name ?d2))" by blast
  moreover from a this
  have "\<exists>is. ZSignUpFormSchema example_deps ?d2 = failure is \<and> refinement_issue \<in> set is"
    by blast
  moreover from a s1 v z ns e0 t o
  have "effects (step example_ctx ?st click_complete)
   = [emailPassword_signUp
        (signUp_request (js ''Ann Lee'') (js ''ann@x.com'') (js ''X9!secret'') None)]"
    by simp
  ultimately show ?thesis using s1 i2 ns by simp
qed

text \<open>
  Claim C10 as stated fails at two places. The submit event of the form, once
  \<open>formState.isValid\<close> reads true, hands \<open>form.getValues()\<close> to \<open>onFormSubmit\<close>, so
  there the payload carries the name as it was typed, spaces included: below, the first
  submit event validates and the second makes the call. And a password that contains the
  name as typed is always rejected: here \<open>''X9! Ann Lee !''\<close> against the name
  \<open>'' Ann Lee ''\<close>.
\<close>

theorem untrimmed_payload_counterexample:
  "effects (run example_ctx
      [change_name (js '' Ann Lee ''), change_email (js ''ann@x.com''),
       change_password (js ''X9!secret''), submit_form, submit_form])
   = [emailPassword_signUp
        (signUp_request (js '' Ann Lee '') (js ''ann@x.com'') (js ''X9!secret'') None)] \<and>
   String_trim (js '' Ann Lee '') = js ''Ann Lee'' \<and>
   js '' Ann Lee '' \<noteq> js ''Ann Lee'' \<and>
   String_includes (js ''X9! Ann Lee !'') (js '' Ann Lee '') \<and>
   ZSignUpFormSchema example_deps
     \<lparr>name = js '' Ann Lee '', email = js ''ann@x.com'', password = js ''X9! Ann Lee !'',
      signature = Some []\<rparr>
   = failure [refinement_issue]"
  by code_simp

end
